theory Spec2Isabelle
  imports Complex_Main "HOL-Library.Product_Lexorder" "HOL-Library.Sublist"
begin

section \<open>Source-site filtering of openquake.hazardlib.calc.filters\<close>

text \<open>
  The embedding follows \<^verbatim>\<open>src/openquake/hazardlib/calc/filters.py\<close>.
  Python floats are modelled by \<^typ>\<open>real\<close>. Comparisons and the case splits on signs
  are exact. The arithmetic of the linear interpolation, where the order of two results
  depends on rounding, is rounded operation by operation to double precision (round to
  nearest, ties to even), and the IEEE results of a division by zero (infinities,
  not-a-number) are kept as values of their own. Overflow and subnormal numbers are not
  modelled: the exponent range is unbounded.
\<close>

subsection \<open>Errors\<close>

text \<open>
  An exception raised by a procedure of a collaborator (a source object) is a record of
  its kind, its message and its traceback. The exceptions the modelled code raises
  itself, or that the libraries it calls raise, are constructors of \<open>error\<close>.
\<close>

record exc =
  etype :: string
  emsg :: string
  tb :: "string list"

datatype error =
    KeyError
  | IndexError
  | TypeError
  | ValueError
  | AttributeError
  | RTreeError
  | FarAwayRupture
  | Raised exc

subsection \<open>Double-precision arithmetic\<close>

text \<open>
  \<open>rnd\<close> rounds a real number to the nearest double: in the binade of \<open>x\<close> the
  doubles are the multiples of \<open>ulp x\<close>, and \<open>rhe\<close> rounds to the nearest integer,
  a tie going to the even one.
\<close>

definition rhe :: "real \<Rightarrow> int" where
  "rhe q =
     (let f = \<lfloor>q\<rfloor>; r = q - of_int f
      in if r < 1/2 then f else if 1/2 < r then f + 1 else if even f then f else f + 1)"

definition ulp :: "real \<Rightarrow> real" where
  "ulp x = 2 powr (of_int \<lfloor>log 2 x\<rfloor> - 52)"

definition rp :: "real \<Rightarrow> real" where
  "rp x = (if x = 0 then 0 else of_int (rhe (x / ulp x)) * ulp x)"

definition rnd :: "real \<Rightarrow> real" where
  "rnd x = (if x < 0 then - rp (- x) else rp x)"

text \<open>
  numpy's division of doubles does not raise on a zero divisor: it returns an infinity
  or not-a-number, and every comparison with not-a-number is false.
\<close>

datatype fval = Finite real | PosInf | NegInf | NaN

definition fdiv :: "real \<Rightarrow> real \<Rightarrow> fval" where
  "fdiv a b =
     (if b \<noteq> 0 then Finite (rnd (a / b))
      else if 0 < a then PosInf
      else if a < 0 then NegInf
      else NaN)"

fun fmul :: "fval \<Rightarrow> real \<Rightarrow> fval" where
  "fmul (Finite a) b = Finite (rnd (a * b))"
| "fmul PosInf b = (if 0 < b then PosInf else if b < 0 then NegInf else NaN)"
| "fmul NegInf b = (if 0 < b then NegInf else if b < 0 then PosInf else NaN)"
| "fmul NaN b = NaN"

fun fadd :: "fval \<Rightarrow> real \<Rightarrow> fval" where
  "fadd (Finite a) b = Finite (rnd (a + b))"
| "fadd PosInf b = PosInf"
| "fadd NegInf b = NegInf"
| "fadd NaN b = NaN"

fun fle :: "fval \<Rightarrow> fval \<Rightarrow> bool" where
  "fle (Finite a) (Finite b) = (a \<le> b)"
| "fle (Finite a) PosInf = True"
| "fle (Finite a) NegInf = False"
| "fle (Finite a) NaN = False"
| "fle PosInf b = (b = PosInf)"
| "fle NegInf b = (b \<noteq> NaN)"
| "fle NaN b = False"

subsection \<open>getdefault\<close>

text \<open>A dictionary with string keys is an association list read with \<open>map_of\<close>.\<close>

type_synonym 'v dict = "(string \<times> 'v) list"

definition getdefault :: "'v dict \<Rightarrow> string \<Rightarrow> error + 'v" where
  "getdefault dic_with_default key =
     (case map_of dic_with_default key of
        Some v \<Rightarrow> Inr v
      | None \<Rightarrow>
          (case map_of dic_with_default ''default'' of
             Some v \<Rightarrow> Inr v
           | None \<Rightarrow> Inl KeyError))"

subsection \<open>scipy.interpolate.interp1d, linear with extrapolation\<close>

text \<open>
  The interpolator is a library object. It is modelled after scipy's implementation of
  \<^verbatim>\<open>interp1d(x, y, bounds_error=False, fill_value='extrapolate')\<close>: the constructor
  sorts the points by abscissa and refuses fewer than two points; a call finds the
  insertion index of the argument (searchsorted, left side), clips it to
  \<open>1 .. len(x) - 1\<close>, and evaluates the line through the two neighbouring points
  as \<^verbatim>\<open>slope = (y_hi - y_lo) / (x_hi - x_lo)\<close> and
  \<^verbatim>\<open>y_new = slope * (x_new - x_lo) + y_lo\<close>, each operation rounded.
\<close>

record interp1d_obj =
  ix :: "real list"
  iy :: "real list"

definition interp1d :: "real list \<Rightarrow> real list \<Rightarrow> error + interp1d_obj" where
  "interp1d x y =
     (if length x \<noteq> length y then Inl ValueError
      else
        let ps = sort_key fst (zip x y) in
        if length ps < 2 then Inl ValueError
        else Inr \<lparr>ix = map fst ps, iy = map snd ps\<rparr>)"

definition searchsorted :: "real list \<Rightarrow> real \<Rightarrow> nat" where
  "searchsorted a v = length (takeWhile (\<lambda>e. e < v) a)"

definition clip :: "nat \<Rightarrow> nat \<Rightarrow> nat \<Rightarrow> nat" where
  "clip i a_min a_max = min (max i a_min) a_max"

definition call_linear :: "interp1d_obj \<Rightarrow> real \<Rightarrow> fval" where
  "call_linear md x_new =
     (let x_new_indices = clip (searchsorted (ix md) x_new) 1 (length (ix md) - 1);
          lo = x_new_indices - 1;
          hi = x_new_indices;
          x_lo = ix md ! lo;
          x_hi = ix md ! hi;
          y_lo = iy md ! lo;
          y_hi = iy md ! hi;
          slope = fdiv (rnd (y_hi - y_lo)) (rnd (x_hi - x_lo))
      in fadd (fmul slope (rnd (x_new - x_lo))) y_lo)"

subsection \<open>IntegrationDistance\<close>

text \<open>
  A value of the table is a scalar or a list of (magnitude, distance) pairs.
  \<open>magdist\<close> holds, per region type, the result of \<^verbatim>\<open>zip(*value)\<close> as the list of
  its tuples (two tuples for a non-empty list of pairs, none for an empty one);
  \<open>interp\<close> is the cache of interpolators, absent until the first interpolated lookup.
\<close>

datatype dvalue = Scalar real | MagDist "(real \<times> real) list"

record IntegrationDistance =
  dic :: "dvalue dict"
  magdist :: "(real list list) dict"
  interp :: "interp1d_obj dict option"

definition zip_star :: "(real \<times> real) list \<Rightarrow> real list list" where
  "zip_star v = (if v = [] then [] else [map fst v, map snd v])"

fun init_value :: "dvalue \<Rightarrow> dvalue" where
  "init_value (MagDist v) = MagDist (sort v)"
| "init_value (Scalar r) = Scalar r"

fun init_magdist :: "dvalue dict \<Rightarrow> (real list list) dict" where
  "init_magdist [] = []"
| "init_magdist ((trt, MagDist v) # rest) = (trt, zip_star (sort v)) # init_magdist rest"
| "init_magdist ((trt, Scalar r) # rest) = init_magdist rest"

definition IntegrationDistance_init :: "dvalue dict \<Rightarrow> IntegrationDistance" where
  "IntegrationDistance_init d =
     \<lparr>dic = map (\<lambda>(trt, v). (trt, init_value v)) d,
      magdist = init_magdist d,
      interp = None\<rparr>"

definition interp1d_star :: "real list list \<Rightarrow> error + interp1d_obj" where
  "interp1d_star args = (case args of [x, y] \<Rightarrow> interp1d x y | _ \<Rightarrow> Inl TypeError)"

text \<open>
  \<^verbatim>\<open>__call__(trt, mag=None)\<close> returns its result together with the object, whose cache
  the interpolated lookup fills.
\<close>

definition IntegrationDistance_call ::
  "IntegrationDistance \<Rightarrow> string \<Rightarrow> real option \<Rightarrow> (error + fval) \<times> IntegrationDistance" where
  "IntegrationDistance_call self trt mag =
     (case getdefault (dic self) trt of
        Inl e \<Rightarrow> (Inl e, self)
      | Inr (Scalar v) \<Rightarrow> (Inr (Finite v), self)
      | Inr (MagDist v) \<Rightarrow>
          (case mag of
             None \<Rightarrow> (if v = [] then (Inl IndexError, self) else (Inr (Finite (snd (last v))), self))
           | Some m \<Rightarrow>
               (let cache = (case interp self of None \<Rightarrow> [] | Some c \<Rightarrow> c);
                    self1 = self\<lparr>interp := Some cache\<rparr>
                in case map_of cache trt of
                     Some md \<Rightarrow> (Inr (call_linear md m), self1)
                   | None \<Rightarrow>
                       (case getdefault (magdist self1) trt of
                          Inl e \<Rightarrow> (Inl e, self1)
                        | Inr args \<Rightarrow>
                            (case interp1d_star args of
                               Inl e \<Rightarrow> (Inl e, self1)
                             | Inr md \<Rightarrow>
                                 (Inr (call_linear md m),
                                  self1\<lparr>interp := Some ((trt, md) # cache)\<rparr>))))))"

definition getitem :: "IntegrationDistance \<Rightarrow> string \<Rightarrow> error + fval" where
  "getitem self trt = fst (IntegrationDistance_call self trt None)"

subsection \<open>Sites and site collections\<close>

text \<open>
  Modelled from the spec: the classes \<^verbatim>\<open>SiteCollection\<close> and \<^verbatim>\<open>FilteredSiteCollection\<close>
  of \<^verbatim>\<open>openquake.hazardlib.site\<close> are not part of the sources at hand. A site is a point
  with a longitude, a latitude, a stable integer identifier and a sea-level flag. A
  collection is either complete, or the restriction of a complete collection to a list
  of identifiers; the \<open>complete\<close> reference of both is the complete collection.
\<close>

record site =
  sid :: nat
  lon :: real
  lat :: real
  sea_level :: bool

datatype sitecol = SiteCollection "site list" | Filtered "nat list" "site list"

fun members :: "sitecol \<Rightarrow> site list" where
  "members (SiteCollection ss) = ss"
| "members (Filtered indices ss) = filter (\<lambda>s. sid s \<in> set indices) ss"

fun complete :: "sitecol \<Rightarrow> sitecol" where
  "complete (SiteCollection ss) = SiteCollection ss"
| "complete (Filtered indices ss) = SiteCollection ss"

fun sids :: "sitecol \<Rightarrow> nat list" where
  "sids (SiteCollection ss) = map sid ss"
| "sids (Filtered indices ss) = indices"

definition lons :: "sitecol \<Rightarrow> real list" where
  "lons sc = map lon (members sc)"

definition lats :: "sitecol \<Rightarrow> real list" where
  "lats sc = map lat (members sc)"

definition len :: "sitecol \<Rightarrow> nat" where
  "len sc = length (sids sc)"

definition at_sea_level :: "sitecol \<Rightarrow> bool" where
  "at_sea_level sc = list_all sea_level (members sc)"

type_synonym point = "real \<times> real"

definition mesh :: "sitecol \<Rightarrow> point list" where
  "mesh sc = map (\<lambda>s. (lon s, lat s)) (members sc)"

text \<open>
  Modelled from the spec: \<^verbatim>\<open>FilteredSiteCollection(indices, complete)\<close> restricts the
  complete collection to the given identifiers.
\<close>

definition FilteredSiteCollection :: "nat list \<Rightarrow> sitecol \<Rightarrow> sitecol" where
  "FilteredSiteCollection indices compl = Filtered indices (members compl)"

text \<open>A boolean mask selects the elements of an array at the positions where it is true.\<close>

definition select :: "'a list \<Rightarrow> bool list \<Rightarrow> 'a list" where
  "select xs msk = map fst (filter snd (zip xs msk))"

text \<open>
  Modelled from the spec: \<^verbatim>\<open>sites.filter(mask)\<close> is the collection restricted to the
  identifiers the mask selects, with the same complete collection behind it.
\<close>

definition filter_sc :: "sitecol \<Rightarrow> bool list \<Rightarrow> sitecol" where
  "filter_sc sc msk = FilteredSiteCollection (select (sids sc) msk) (complete sc)"

subsection \<open>Ruptures and get\_distances\<close>

text \<open>
  A rupture is a collaborator: its distance procedures map a mesh to one distance per
  point, so each is a function of the point.
\<close>

record rupture =
  rup_tectonic_region_type :: string
  mag :: real
  get_min_distance :: "point \<Rightarrow> real"
  get_rx_distance :: "point \<Rightarrow> real"
  get_ry0_distance :: "point \<Rightarrow> real"
  get_joyner_boore_distance :: "point \<Rightarrow> real"
  distance_to_mesh :: "bool \<Rightarrow> point \<Rightarrow> real"
  get_cdppvalue :: "point \<Rightarrow> real"
  get_azimuth :: "point \<Rightarrow> real"

definition get_distances :: "rupture \<Rightarrow> point list \<Rightarrow> string \<Rightarrow> error + real list" where
  "get_distances rup msh param =
     (if param = ''rrup'' then Inr (map (get_min_distance rup) msh)
      else if param = ''rx'' then Inr (map (get_rx_distance rup) msh)
      else if param = ''ry0'' then Inr (map (get_ry0_distance rup) msh)
      else if param = ''rjb'' then Inr (map (get_joyner_boore_distance rup) msh)
      else if param = ''rhypo'' then Inr (map (distance_to_mesh rup True) msh)
      else if param = ''repi'' then Inr (map (distance_to_mesh rup False) msh)
      else if param = ''rcdpp'' then Inr (map (get_cdppvalue rup) msh)
      else if param = ''azimuth'' then Inr (map (get_azimuth rup) msh)
      else Inl ValueError)"

definition get_closest ::
  "IntegrationDistance \<Rightarrow> sitecol \<Rightarrow> rupture \<Rightarrow> string \<Rightarrow>
     (error + sitecol \<times> real list) \<times> IntegrationDistance" where
  "get_closest self sites rup distance_type =
     (case get_distances rup (mesh sites) distance_type of
        Inl e \<Rightarrow> (Inl e, self)
      | Inr distances \<Rightarrow>
          if dic self = [] then (Inr (sites, distances), self)
          else
            (case IntegrationDistance_call self (rup_tectonic_region_type rup) (Some (mag rup)) of
               (Inl e, self1) \<Rightarrow> (Inl e, self1)
             | (Inr threshold, self1) \<Rightarrow>
                 (let msk = map (\<lambda>d. fle (Finite d) threshold) distances
                  in if list_ex (\<lambda>b. b) msk
                     then (Inr (filter_sc sites msk, select distances msk), self1)
                     else (Inl FarAwayRupture, self1))))"

subsection \<open>Sources\<close>

text \<open>
  A source is a collaborator: its bounding box enlarged by a distance, and its own
  distance filter, which returns a collection, nothing, or fails with an exception.
\<close>

type_synonym box = "real \<times> real \<times> real \<times> real"

record source =
  source_id :: string
  tectonic_region_type :: string
  nsites :: "nat option"
  get_bounding_box :: "fval \<Rightarrow> box"
  filter_sites_by_distance_to_source :: "fval \<Rightarrow> sitecol \<Rightarrow> exc + sitecol option"

text \<open>
  Modelled from the spec: \<^verbatim>\<open>raise_\<close> of \<^verbatim>\<open>openquake.baselib.python3compat\<close> is not part of
  the sources at hand (it is named \<open>raise_compat\<close> here); it raises an exception of the given kind with the given message
  and the given traceback.
\<close>

definition raise_compat :: "string \<Rightarrow> string \<Rightarrow> string list \<Rightarrow> error + 'a" where
  "raise_compat etp msg trace = Inl (Raised \<lparr>etype = etp, emsg = msg, tb = trace\<rparr>)"

definition "context" :: "source \<Rightarrow> exc + 'a \<Rightarrow> error + 'a" where
  "context src body =
     (case body of
        Inr v \<Rightarrow> Inr v
      | Inl err \<Rightarrow>
          raise_compat (etype err)
            (''An error occurred with source id='' @ source_id src @ ''. Error: '' @ emsg err)
            (tb err))"

subsection \<open>The R-tree index\<close>

text \<open>
  The index of the rtree library holds one box per identifier. A query refuses
  coordinates that are not a sequence and boxes whose minimum exceeds the maximum;
  otherwise it returns the identifiers of the stored boxes that meet the query box,
  bounds included.
\<close>

type_synonym rindex = "(nat \<times> box) list"

fun intersects :: "box \<Rightarrow> box \<Rightarrow> bool" where
  "intersects (ax0, ay0, ax1, ay1) (bx0, by0, bx1, by1) =
     (ax0 \<le> bx1 \<and> bx0 \<le> ax1 \<and> ay0 \<le> by1 \<and> by0 \<le> ay1)"

fun intersection :: "rindex \<Rightarrow> box option \<Rightarrow> error + nat list" where
  "intersection idx None = Inl TypeError"
| "intersection idx (Some (minx, miny, maxx, maxy)) =
     (if \<not> minx \<le> maxx \<or> \<not> miny \<le> maxy then Inl RTreeError
      else Inr (map fst (filter (\<lambda>(i, b). intersects b (minx, miny, maxx, maxy)) idx)))"

subsection \<open>SourceFilter\<close>

text \<open>
  The attributes \<open>idl\<close> and \<open>index\<close> exist only on a filter that was built with the
  index in use: \<open>None\<close> is the missing attribute.
\<close>

record SourceFilter =
  integration_distance :: IntegrationDistance
  sitecol :: "sitecol option"
  use_rtree :: bool
  idl :: "bool option"
  index :: "rindex option"

text \<open>
  The constructor takes the availability of the rtree module and the function
  \<^verbatim>\<open>fix_lons_idl\<close> of \<^verbatim>\<open>openquake.hazardlib.geo.utils\<close>, which is not part of the sources
  at hand, as parameters.
\<close>

definition SourceFilter_init ::
  "bool \<Rightarrow> (real list \<Rightarrow> real list \<times> bool) \<Rightarrow> sitecol option \<Rightarrow> dvalue dict \<Rightarrow> bool \<Rightarrow> SourceFilter" where
  "SourceFilter_init rtree fix_lons_idl sc d use =
     (let idist = IntegrationDistance_init d;
          use1 = (use \<and> rtree \<and> d \<noteq> [] \<and>
                  (case sc of None \<Rightarrow> False | Some c \<Rightarrow> at_sea_level c))
      in case sc of
           Some c \<Rightarrow>
             if use1 then
               (let (fixed_lons, flag) = fix_lons_idl (lons c)
                in \<lparr>integration_distance = idist, sitecol = sc, use_rtree = True,
                    idl = Some flag,
                    index = Some (map (\<lambda>(i, x, y). (i, (x, y, x, y)))
                                   (zip (sids c) (zip fixed_lons (lats c))))\<rparr>)
             else \<lparr>integration_distance = idist, sitecol = sc, use_rtree = False,
                   idl = None, index = None\<rparr>
         | None \<Rightarrow> \<lparr>integration_distance = idist, sitecol = sc, use_rtree = False,
                     idl = None, index = None\<rparr>)"

definition get_affected_box :: "SourceFilter \<Rightarrow> source \<Rightarrow> error + box option" where
  "get_affected_box self src =
     (case getitem (integration_distance self) (tectonic_region_type src) of
        Inl e \<Rightarrow> Inl e
      | Inr maxdist \<Rightarrow>
          (case get_bounding_box src maxdist of
             (min_lon, min_lat, max_lon, max_lat) \<Rightarrow>
               (case idl self of
                  None \<Rightarrow> Inl AttributeError
                | Some True \<Rightarrow>
                    if min_lon < 0 \<and> max_lon > 0
                      then Inr (Some (max_lon, min_lat, min_lon + 360, max_lat))
                    else if min_lon < 0 \<and> max_lon < 0
                      then Inr (Some (min_lon + 360, min_lat, max_lon + 360, max_lat))
                    else if min_lon > 0 \<and> max_lon > 0
                      then Inr (Some (min_lon, min_lat, max_lon, max_lat))
                    else if min_lon > 0 \<and> max_lon < 0
                      then Inr (Some (max_lon + 360, min_lat, min_lon, max_lat))
                    else Inr None
                | Some False \<Rightarrow> Inr (Some (min_lon, min_lat, max_lon, max_lat)))))"

text \<open>
  The generator \<^verbatim>\<open>__call__\<close> is the list of the pairs it yields, in order, together with
  the error that ends the iteration, if one does. A yielded source carries the
  \<open>nsites\<close> the filter has set on it.
\<close>

type_synonym pairs = "(source \<times> sitecol option) list \<times> error option"

definition yield :: "source \<times> sitecol option \<Rightarrow> pairs \<Rightarrow> pairs" where
  "yield p r = (p # fst r, snd r)"

fun filter_loop :: "SourceFilter \<Rightarrow> sitecol \<Rightarrow> source list \<Rightarrow> pairs" where
  "filter_loop self sites [] = ([], None)"
| "filter_loop self sites (src # rest) =
     (if use_rtree self then
        (case get_affected_box self src of
           Inl e \<Rightarrow> ([], Some e)
         | Inr bx \<Rightarrow>
             (case index self of
                None \<Rightarrow> ([], Some AttributeError)
              | Some idx \<Rightarrow>
                  (case intersection idx bx of
                     Inl e \<Rightarrow> ([], Some e)
                   | Inr found \<Rightarrow>
                       (let ids = sort found
                        in if length ids \<noteq> 0
                           then yield (src\<lparr>nsites := Some (length ids)\<rparr>,
                                       Some (FilteredSiteCollection ids (complete sites)))
                                  (filter_loop self sites rest)
                           else filter_loop self sites rest))))
      else if dic (integration_distance self) = [] then
        yield (src, Some sites) (filter_loop self sites rest)
      else
        (case fst (IntegrationDistance_call (integration_distance self)
                     (tectonic_region_type src) None) of
           Inl e \<Rightarrow> ([], Some e)
         | Inr maxdist \<Rightarrow>
             (case context src (filter_sites_by_distance_to_source src maxdist sites) of
                Inl e \<Rightarrow> ([], Some e)
              | Inr None \<Rightarrow> filter_loop self sites rest
              | Inr (Some s_sites) \<Rightarrow>
                  yield (src\<lparr>nsites := Some (len s_sites)\<rparr>, Some s_sites)
                    (filter_loop self sites rest))))"

definition call :: "SourceFilter \<Rightarrow> source list \<Rightarrow> sitecol option \<Rightarrow> pairs" where
  "call self sources sites =
     (case sitecol self of
        None \<Rightarrow>
          (map (\<lambda>src. (src, (case sites of None \<Rightarrow> sitecol self | Some s \<Rightarrow> Some s))) sources,
           None)
      | Some sc \<Rightarrow> filter_loop self (case sites of None \<Rightarrow> sc | Some s \<Rightarrow> s) sources)"

text \<open>
  The index query of one source, as the claims word it: the index is queried with the
  affected box of the source and the identifiers it returns are sorted ascending.
\<close>

definition index_query :: "SourceFilter \<Rightarrow> source \<Rightarrow> error + nat list" where
  "index_query self src =
     (case get_affected_box self src of
        Inl e \<Rightarrow> Inl e
      | Inr bx \<Rightarrow>
          (case index self of
             None \<Rightarrow> Inl AttributeError
           | Some idx \<Rightarrow>
               (case intersection idx bx of
                  Inl e \<Rightarrow> Inl e
                | Inr found \<Rightarrow> Inr (sort found))))"

text \<open>
  Pickling keeps the state \<^verbatim>\<open>__getstate__\<close> returns; unpickling makes an object whose
  attributes are exactly the entries of that state.
\<close>

record state =
  st_integration_distance :: IntegrationDistance
  st_sitecol :: "sitecol option"
  st_use_rtree :: bool

definition getstate :: "SourceFilter \<Rightarrow> state" where
  "getstate self =
     \<lparr>st_integration_distance = integration_distance self,
      st_sitecol = sitecol self,
      st_use_rtree = False\<rparr>"

definition setstate :: "state \<Rightarrow> SourceFilter" where
  "setstate st =
     \<lparr>integration_distance = st_integration_distance st,
      sitecol = st_sitecol st,
      use_rtree = st_use_rtree st,
      idl = None,
      index = None\<rparr>"

subsection \<open>The geometric fallback, as the specification words it\<close>

text \<open>
  Following the specification of the iteration without the index: a filter without a
  site collection pairs every source with the sites given; otherwise, source by source
  and in order, an empty distance table yields the source with the sites unfiltered; a
  non-empty one looks up the distance of the source's region type and delegates to the
  source's own distance filter, whose failure is raised again with the source's
  identifier in front of its message and nothing else changed, whose empty answer skips
  the source, and whose subset is yielded with \<open>nsites\<close> set to its size.
\<close>

definition fallback_source ::
  "IntegrationDistance \<Rightarrow> sitecol \<Rightarrow> source \<Rightarrow> error + (source \<times> sitecol option) option" where
  "fallback_source idist sites src =
     (if dic idist = [] then Inr (Some (src, Some sites))
      else
        (case fst (IntegrationDistance_call idist (tectonic_region_type src) None) of
           Inl e \<Rightarrow> Inl e
         | Inr maxdist \<Rightarrow>
             (case filter_sites_by_distance_to_source src maxdist sites of
                Inl err \<Rightarrow>
                  Inl (Raised (err\<lparr>emsg := ''An error occurred with source id='' @ source_id src
                                       @ ''. Error: '' @ emsg err\<rparr>))
              | Inr None \<Rightarrow> Inr None
              | Inr (Some sub) \<Rightarrow> Inr (Some (src\<lparr>nsites := Some (len sub)\<rparr>, Some sub)))))"

fun collect :: "(source \<Rightarrow> error + (source \<times> sitecol option) option) \<Rightarrow> source list \<Rightarrow> pairs" where
  "collect f [] = ([], None)"
| "collect f (src # rest) =
     (case f src of
        Inl e \<Rightarrow> ([], Some e)
      | Inr None \<Rightarrow> collect f rest
      | Inr (Some p) \<Rightarrow> (p # fst (collect f rest), snd (collect f rest)))"

definition geometric_fallback ::
  "sitecol option \<Rightarrow> IntegrationDistance \<Rightarrow> source list \<Rightarrow> sitecol option \<Rightarrow> pairs" where
  "geometric_fallback sc idist sources sites =
     (case sc of
        None \<Rightarrow> (map (\<lambda>src. (src, sites)) sources, None)
      | Some c \<Rightarrow> collect (fallback_source idist (case sites of None \<Rightarrow> c | Some s \<Rightarrow> s)) sources)"

section \<open>Example objects\<close>

text \<open>
  An instance of the date-line correction handed to the constructor in the examples:
  negative longitudes are shifted by 360 degrees and the correction is reported active.
\<close>

definition fix_lons_shift :: "real list \<Rightarrow> real list \<times> bool" where
  "fix_lons_shift ls = (map (\<lambda>x. if x < 0 then x + 360 else x) ls, True)"

text \<open>Two sites on either side of the antimeridian, at longitudes 179.5 and -179.9.\<close>

definition seam_sites :: sitecol where
  "seam_sites = SiteCollection
     [\<lparr>sid = 0, lon = 359/2, lat = 0, sea_level = True\<rparr>,
      \<lparr>sid = 1, lon = - (1799/10), lat = 0, sea_level = True\<rparr>]"

definition seam_filter :: SourceFilter where
  "seam_filter =
     SourceFilter_init True fix_lons_shift (Some seam_sites) [(''default'', Scalar 200)] True"

text \<open>A source whose enlarged bounding box is the given box, whatever the distance.\<close>

definition box_source :: "string \<Rightarrow> box \<Rightarrow> source" where
  "box_source name b =
     \<lparr>source_id = name, tectonic_region_type = ''Active Shallow Crust'', nsites = None,
      get_bounding_box = (\<lambda>d. b),
      filter_sites_by_distance_to_source = (\<lambda>d s. Inr None)\<rparr>"

text \<open>
  The copy of the example filter a worker receives, a source whose own distance filter
  keeps every site, and one whose distance filter fails.
\<close>

definition worker_filter :: SourceFilter where
  "worker_filter = setstate (getstate seam_filter)"

definition near_source :: source where
  "near_source =
     \<lparr>source_id = ''7'', tectonic_region_type = ''Active Shallow Crust'', nsites = None,
      get_bounding_box = (\<lambda>d. (170, -10, 190, 10)),
      filter_sites_by_distance_to_source = (\<lambda>d s. Inr (Some s))\<rparr>"

definition failing_source :: source where
  "failing_source =
     \<lparr>source_id = ''42'', tectonic_region_type = ''Active Shallow Crust'', nsites = None,
      get_bounding_box = (\<lambda>d. (170, -10, 190, 10)),
      filter_sites_by_distance_to_source =
        (\<lambda>d s. Inl \<lparr>etype = ''ValueError'', emsg = ''bad geometry'', tb = [''polygon.py:17'']\<rparr>)\<rparr>"

text \<open>
  The example filter with a table that has no "default" entry, and two sources with
  the same box, one of a region type the table knows and one of a region type it lacks.
\<close>

definition strict_filter :: SourceFilter where
  "strict_filter =
     SourceFilter_init True fix_lons_shift (Some seam_sites) [(''Volcanic'', Scalar 50)] True"

definition known_source :: source where
  "known_source = (box_source ''known'' (170, -10, 190, 10))\<lparr>tectonic_region_type := ''Volcanic''\<rparr>"

definition unknown_source :: source where
  "unknown_source = (box_source ''unknown'' (170, -10, 190, 10))\<lparr>tectonic_region_type := ''Stable''\<rparr>"

text \<open>A source on the Greenwich meridian whose own distance filter keeps every site.\<close>

definition meridian_source :: source where
  "meridian_source = near_source\<lparr>get_bounding_box := (\<lambda>d. (0, -10, 10, 10))\<rparr>"

text \<open>
  Tables: the one of the docstring of \<^verbatim>\<open>IntegrationDistance\<close>; one with a scalar and
  an unsorted list under "default"; one without "default"; a list whose second segment
  is flat; and lists with a repeated magnitude, with a single pair and with no pair.
\<close>

definition docstring_table :: "dvalue dict" where
  "docstring_table =
     [(''default'', MagDist [(1, 10), (2, 20), (3, 30), (4, 40), (5, 100), (6, 200),
                             (7, 400), (8, 800)])]"

definition mixed_table :: "dvalue dict" where
  "mixed_table = [(''Volcanic'', Scalar 50), (''default'', MagDist [(5, 100), (1, 10), (3, 30)])]"

definition no_default_table :: "dvalue dict" where
  "no_default_table = [(''Volcanic'', Scalar 50)]"





text \<open>
  A rupture of the given region type and magnitude that is 10 km away from every point
  of non-negative longitude and 500 km away from every other point, in every metric.
\<close>

definition example_rupture :: "string \<Rightarrow> real \<Rightarrow> rupture" where
  "example_rupture trt m =
     \<lparr>rup_tectonic_region_type = trt, mag = m,
      get_min_distance = (\<lambda>p. if fst p < 0 then 500 else 10),
      get_rx_distance = (\<lambda>p. if fst p < 0 then 500 else 10),
      get_ry0_distance = (\<lambda>p. if fst p < 0 then 500 else 10),
      get_joyner_boore_distance = (\<lambda>p. if fst p < 0 then 500 else 10),
      distance_to_mesh = (\<lambda>with_depths p. if fst p < 0 then 500 else 10),
      get_cdppvalue = (\<lambda>p. if fst p < 0 then 500 else 10),
      get_azimuth = (\<lambda>p. if fst p < 0 then 500 else 10)\<rparr>"

section \<open>Properties\<close>

subsection \<open>Evaluation of the example objects\<close>

lemma seam_filter_eq:
  "seam_filter =
     \<lparr>integration_distance = \<lparr>dic = [(''default'', Scalar 200)], magdist = [], interp = None\<rparr>,
      sitecol = Some seam_sites, use_rtree = True, idl = Some True,
      index = Some [(0, (359/2, 0, 359/2, 0)), (1, (1801/10, 0, 1801/10, 0))]\<rparr>"
  by (simp add: seam_filter_def SourceFilter_init_def IntegrationDistance_init_def seam_sites_def
      at_sea_level_def lons_def lats_def fix_lons_shift_def)

lemma seam_getitem:
  "getitem (integration_distance seam_filter) (tectonic_region_type (box_source name b)) = Inr (Finite 200)"
  by (simp add: seam_filter_eq box_source_def getitem_def IntegrationDistance_call_def getdefault_def)

lemma seam_box:
  "get_bounding_box (box_source name b) d = b"
  by (simp add: box_source_def)

subsection \<open>The affected box\<close>

text \<open>
  C1. With the date-line correction active, the enlarged bounding box
  (min_lon, min_lat, max_lon, max_lat) of a source is remapped by four cases on the signs
  of the two longitudes: min_lon < 0 < max_lon gives (max_lon, min_lat, min_lon + 360,
  max_lat); both negative gives both shifted by 360; both positive gives the box
  unchanged; min_lon > 0 > max_lon gives (max_lon + 360, min_lat, min_lon, max_lat).
  With the correction not active the box is returned unchanged.
\<close>

theorem get_affected_box_cases:
  assumes "getitem (integration_distance self) (tectonic_region_type src) = Inr maxdist"
    and "get_bounding_box src maxdist = (min_lon, min_lat, max_lon, max_lat)"
  shows "(idl self = Some True \<longrightarrow>
           (min_lon < 0 \<and> max_lon > 0 \<longrightarrow>
              get_affected_box self src = Inr (Some (max_lon, min_lat, min_lon + 360, max_lat))) \<and>
           (min_lon < 0 \<and> max_lon < 0 \<longrightarrow>
              get_affected_box self src = Inr (Some (min_lon + 360, min_lat, max_lon + 360, max_lat))) \<and>
           (min_lon > 0 \<and> max_lon > 0 \<longrightarrow>
              get_affected_box self src = Inr (Some (min_lon, min_lat, max_lon, max_lat))) \<and>
           (min_lon > 0 \<and> max_lon < 0 \<longrightarrow>
              get_affected_box self src = Inr (Some (max_lon + 360, min_lat, min_lon, max_lat)))) \<and>
         (idl self = Some False \<longrightarrow>
            get_affected_box self src = Inr (Some (min_lon, min_lat, max_lon, max_lat)))"
  using assms by (simp add: get_affected_box_def)

theorem get_affected_box_cases_witness:
  "idl seam_filter = Some True \<and>
   get_affected_box seam_filter (box_source ''a'' (-170, -10, 170, 10)) = Inr (Some (170, -10, 190, 10)) \<and>
   get_affected_box seam_filter (box_source ''b'' (-175, -10, -165, 10)) = Inr (Some (185, -10, 195, 10)) \<and>
   get_affected_box seam_filter (box_source ''c'' (165, -10, 175, 10)) = Inr (Some (165, -10, 175, 10)) \<and>
   get_affected_box seam_filter (box_source ''d'' (170, -10, -170, 10)) = Inr (Some (190, -10, 170, 10)) \<and>
   get_affected_box (seam_filter\<lparr>idl := Some False\<rparr>) (box_source ''e'' (170, -10, -170, 10))
     = Inr (Some (170, -10, -170, 10))"
proof -
  have i: "idl seam_filter = Some True" by (simp add: seam_filter_eq)
  have g: "getitem (integration_distance (seam_filter\<lparr>idl := Some False\<rparr>))
             (tectonic_region_type (box_source ''e'' (170, -10, -170, 10))) = Inr (Finite 200)"
    using seam_getitem by simp
  have a: "get_bounding_box (box_source ''a'' (-170, -10, 170, 10)) (Finite 200) = (-170, -10, 170, 10)"
    and b: "get_bounding_box (box_source ''b'' (-175, -10, -165, 10)) (Finite 200) = (-175, -10, -165, 10)"
    and c: "get_bounding_box (box_source ''c'' (165, -10, 175, 10)) (Finite 200) = (165, -10, 175, 10)"
    and d: "get_bounding_box (box_source ''d'' (170, -10, -170, 10)) (Finite 200) = (170, -10, -170, 10)"
    and e: "get_bounding_box (box_source ''e'' (170, -10, -170, 10)) (Finite 200) = (170, -10, -170, 10)"
    by (simp_all add: seam_box)
  show ?thesis
    using i
      get_affected_box_cases [OF seam_getitem a]
      get_affected_box_cases [OF seam_getitem b]
      get_affected_box_cases [OF seam_getitem c]
      get_affected_box_cases [OF seam_getitem d]
      get_affected_box_cases [OF g e]
    by simp
qed

subsection \<open>The generator, source by source\<close>

lemma filter_loop_append:
  "filter_loop self sites (pre @ rest) =
     (case snd (filter_loop self sites pre) of
        None \<Rightarrow> (fst (filter_loop self sites pre) @ fst (filter_loop self sites rest),
                  snd (filter_loop self sites rest))
      | Some e \<Rightarrow> filter_loop self sites pre)"
  by (induction pre)
     (auto simp: yield_def Let_def split: sum.splits option.splits prod.splits)

lemma call_append:
  assumes "sitecol self \<noteq> None" and "snd (call self pre sites) = None"
  shows "call self (pre @ rest) sites =
           (fst (call self pre sites) @ fst (call self rest sites), snd (call self rest sites))"
  using assms by (auto simp: call_def filter_loop_append split: option.splits)

text \<open>
  C9. With the date-line correction active, a source whose enlarged bounding box has
  min_lon = 0 or max_lon = 0 meets none of the four branches, which all compare strictly:
  \<open>get_affected_box\<close> returns no box, the index query on it fails, and the iteration
  ends with that error at this source, which is neither yielded nor skipped.
\<close>

theorem affected_box_zero_longitude:
  assumes "idl self = Some True"
    and "getitem (integration_distance self) (tectonic_region_type src) = Inr maxdist"
    and "get_bounding_box src maxdist = (min_lon, min_lat, max_lon, max_lat)"
    and "min_lon = 0 \<or> max_lon = 0"
    and "use_rtree self" and "sitecol self = Some sc" and "index self = Some idx"
    and "snd (call self pre sites) = None"
  shows "get_affected_box self src = Inr None \<and>
         intersection idx None = Inl TypeError \<and>
         call self (pre @ src # rest) sites = (fst (call self pre sites), Some TypeError)"
proof -
  have b: "get_affected_box self src = Inr None"
    using assms(1-4) by (auto simp: get_affected_box_def)
  have "call self [src] sites = ([], Some TypeError)"
    using b assms(5-7) by (simp add: call_def)
  moreover have "call self (src # rest) sites = ([], Some TypeError)"
    using b assms(5-7) by (simp add: call_def)
  ultimately show ?thesis
    using b assms(6,8) call_append [of self pre sites "src # rest"] by simp
qed

lemma filter_loop_index_query:
  assumes "use_rtree self"
  shows "filter_loop self st sources =
     (concat (map (\<lambda>src. case index_query self src of
                      Inr ids \<Rightarrow>
                        if ids = [] then []
                        else [(src\<lparr>nsites := Some (length ids)\<rparr>,
                               Some (FilteredSiteCollection ids (complete st)))]
                    | Inl e \<Rightarrow> [])
                (takeWhile (\<lambda>src. \<not> isl (index_query self src)) sources)),
      case dropWhile (\<lambda>src. \<not> isl (index_query self src)) sources of
        [] \<Rightarrow> None
      | src # rest \<Rightarrow> (case index_query self src of Inl e \<Rightarrow> Some e | Inr ids \<Rightarrow> None))"
proof (induction sources)
  case Nil
  then show ?case by simp
next
  case (Cons src rest)
  show ?case
  proof (cases "index_query self src")
    case (Inl e)
    then have "filter_loop self st (src # rest) = ([], Some e)"
      using assms by (auto simp: index_query_def split: sum.splits option.splits)
    then show ?thesis using Inl by simp
  next
    case (Inr ids)
    then have "filter_loop self st (src # rest) =
        (if ids = [] then filter_loop self st rest
         else yield (src\<lparr>nsites := Some (length ids)\<rparr>,
                     Some (FilteredSiteCollection ids (complete st))) (filter_loop self st rest))"
      using assms by (auto simp: index_query_def Let_def split: sum.splits option.splits)
    then show ?thesis using Inr Cons.IH by (simp add: yield_def)
  qed
qed

text \<open>
  C3, as amended. With a site collection and the index in use, for every source
  sequence: the sources are processed in order up to the first one whose index query
  raises, where the iteration ends with that error (it runs through when no query
  raises). Each source before that point whose sorted list of identifiers is not empty
  is yielded, with \<open>nsites\<close> set to the length of the list, together with the
  collection restricted to these identifiers; each one that meets no site gives no pair.
\<close>

theorem call_index_path:
  assumes "use_rtree self" and "sitecol self = Some sc"
  shows "call self sources sites =
     (concat (map (\<lambda>src. case index_query self src of
                      Inr ids \<Rightarrow>
                        if ids = [] then []
                        else [(src\<lparr>nsites := Some (length ids)\<rparr>,
                               Some (FilteredSiteCollection ids
                                       (complete (case sites of None \<Rightarrow> sc | Some s \<Rightarrow> s))))]
                    | Inl e \<Rightarrow> [])
                (takeWhile (\<lambda>src. \<not> isl (index_query self src)) sources)),
      case dropWhile (\<lambda>src. \<not> isl (index_query self src)) sources of
        [] \<Rightarrow> None
      | src # rest \<Rightarrow> (case index_query self src of Inl e \<Rightarrow> Some e | Inr ids \<Rightarrow> None))"
  using assms filter_loop_index_query [of self] by (simp add: call_def)

lemma seam_call_wide:
  "call seam_filter [box_source name (170, -10, 190, 10)] sites =
     ([((box_source name (170, -10, 190, 10))\<lparr>nsites := Some 2\<rparr>,
        Some (Filtered [0, 1] (members (complete (case sites of None \<Rightarrow> seam_sites | Some s \<Rightarrow> s)))))], None)"
  by (simp add: seam_filter_eq call_def box_source_def get_affected_box_def getitem_def
      IntegrationDistance_call_def getdefault_def yield_def FilteredSiteCollection_def)

lemma seam_call_wrapping:
  "call seam_filter [box_source name (170, -10, -170, 10)] sites = ([], Some RTreeError)"
  by (simp add: seam_filter_eq call_def box_source_def get_affected_box_def getitem_def
      IntegrationDistance_call_def getdefault_def)

lemma seam_affected:
  "get_affected_box seam_filter (box_source name (a, b, c, d)) =
     (if a < 0 \<and> c > 0 then Inr (Some (c, b, a + 360, d))
      else if a < 0 \<and> c < 0 then Inr (Some (a + 360, b, c + 360, d))
      else if a > 0 \<and> c > 0 then Inr (Some (a, b, c, d))
      else if a > 0 \<and> c < 0 then Inr (Some (c + 360, b, a, d))
      else Inr None)"
  by (simp add: seam_filter_eq box_source_def get_affected_box_def getitem_def
      IntegrationDistance_call_def getdefault_def)

text \<open>
  C2. A filter with the index in use over sites at longitudes 179.5 and -179.9, with the
  date-line correction active (the second site is stored at 180.1), and a source whose
  enlarged bounding box is (170, -10, -170, 10): the fourth branch remaps the box to
  (190, -10, 170, 10), whose minimum longitude exceeds its maximum. The stored site at
  180.1 does not meet that box, the index refuses the query, and the site is not
  retained; the box (170, -10, 190, 10), the same region shifted by 360 degrees, retains
  both sites.
\<close>

theorem wrapping_box_not_retained:
  "get_affected_box seam_filter (box_source ''1'' (170, -10, -170, 10)) = Inr (Some (190, -10, 170, 10)) \<and>
   index seam_filter = Some [(0, (359/2, 0, 359/2, 0)), (1, (1801/10, 0, 1801/10, 0))] \<and>
   \<not> intersects (1801/10, 0, 1801/10, 0) (190, -10, 170, 10) \<and>
   intersection [(0, (359/2, 0, 359/2, 0)), (1, (1801/10, 0, 1801/10, 0))] (Some (190, -10, 170, 10)) = Inl RTreeError \<and>
   call seam_filter [box_source ''1'' (170, -10, -170, 10)] None = ([], Some RTreeError) \<and>
   call seam_filter [box_source ''1'' (170, -10, 190, 10)] None =
     ([((box_source ''1'' (170, -10, 190, 10))\<lparr>nsites := Some 2\<rparr>,
        Some (Filtered [0, 1] (members seam_sites)))], None)"
  by (simp add: seam_affected seam_call_wide seam_call_wrapping) (simp add: seam_filter_eq seam_sites_def)


theorem affected_box_zero_longitude_witness:
  "idl seam_filter = Some True \<and>
   get_affected_box seam_filter (box_source ''z'' (0, -10, 10, 10)) = Inr None \<and>
   call seam_filter [box_source ''w'' (170, -10, 190, 10), box_source ''z'' (0, -10, 10, 10),
                     box_source ''v'' (170, -10, 190, 10)] None =
     ([((box_source ''w'' (170, -10, 190, 10))\<lparr>nsites := Some 2\<rparr>,
        Some (Filtered [0, 1] (members seam_sites)))], Some TypeError)"
proof -
  have f: "idl seam_filter = Some True" "use_rtree seam_filter"
    "sitecol seam_filter = Some seam_sites"
    "index seam_filter = Some [(0, (359/2, 0, 359/2, 0)), (1, (1801/10, 0, 1801/10, 0))]"
    by (simp_all add: seam_filter_eq)
  have b: "get_bounding_box (box_source ''z'' (0, -10, 10, 10)) (Finite 200) = (0, -10, 10, 10)"
    by (rule seam_box)
  have z: "(0::real) = 0 \<or> (10::real) = 0" by simp
  have p: "snd (call seam_filter [box_source ''w'' (170, -10, 190, 10)] None) = None"
    by (simp add: seam_call_wide)
  show ?thesis
    using affected_box_zero_longitude [OF f(1) seam_getitem b z f(2) f(3) f(4) p,
        of "[box_source ''v'' (170, -10, 190, 10)]"] f(1)
    by (simp add: seam_call_wide seam_sites_def)
qed

lemma seam_index_query:
  "index_query seam_filter (box_source ''far'' (10, -10, 20, 10)) = Inr []"
  "index_query seam_filter (box_source ''w'' (170, -10, 190, 10)) = Inr [0, 1]"
  "index_query seam_filter (box_source ''u'' (-170, -10, 170, 10)) = Inr [0, 1]"
  "index_query seam_filter (box_source ''z'' (0, -10, 10, 10)) = Inl TypeError"
  by (simp_all add: index_query_def seam_affected) (simp_all add: seam_filter_eq)

theorem call_index_path_witness:
  "use_rtree seam_filter \<and> sitecol seam_filter = Some seam_sites \<and>
   call seam_filter [box_source ''far'' (10, -10, 20, 10), box_source ''w'' (170, -10, 190, 10),
                     box_source ''u'' (-170, -10, 170, 10)] None =
     ([((box_source ''w'' (170, -10, 190, 10))\<lparr>nsites := Some 2\<rparr>,
        Some (Filtered [0, 1] (members seam_sites))),
       ((box_source ''u'' (-170, -10, 170, 10))\<lparr>nsites := Some 2\<rparr>,
        Some (Filtered [0, 1] (members seam_sites)))], None) \<and>
   call seam_filter [box_source ''w'' (170, -10, 190, 10), box_source ''z'' (0, -10, 10, 10),
                     box_source ''u'' (-170, -10, 170, 10)] None =
     ([((box_source ''w'' (170, -10, 190, 10))\<lparr>nsites := Some 2\<rparr>,
        Some (Filtered [0, 1] (members seam_sites)))], Some TypeError)"
proof -
  have f: "use_rtree seam_filter" "sitecol seam_filter = Some seam_sites"
    by (simp_all add: seam_filter_eq)
  show ?thesis
    using f
      call_index_path [OF f, of "[box_source ''far'' (10, -10, 20, 10),
          box_source ''w'' (170, -10, 190, 10), box_source ''u'' (-170, -10, 170, 10)]" None]
      call_index_path [OF f, of "[box_source ''w'' (170, -10, 190, 10),
          box_source ''z'' (0, -10, 10, 10), box_source ''u'' (-170, -10, 170, 10)]" None]
    by (simp add: seam_index_query FilteredSiteCollection_def seam_sites_def)
qed

lemma strict_filter_eq:
  "strict_filter =
     \<lparr>integration_distance = \<lparr>dic = [(''Volcanic'', Scalar 50)], magdist = [], interp = None\<rparr>,
      sitecol = Some seam_sites, use_rtree = True, idl = Some True,
      index = Some [(0, (359/2, 0, 359/2, 0)), (1, (1801/10, 0, 1801/10, 0))]\<rparr>"
  by (simp add: strict_filter_def SourceFilter_init_def IntegrationDistance_init_def seam_sites_def
      at_sea_level_def lons_def lats_def fix_lons_shift_def)

text \<open>
  C3, as stated, fails: in the sequence of a source whose region type the table lacks
  followed by a source that meets both sites, the lookup of the first raises and ends
  the iteration, and the second source, whose list of identifiers is not empty, is
  not yielded.
\<close>

theorem later_source_not_yielded:
  "use_rtree strict_filter \<and> sitecol strict_filter = Some seam_sites \<and>
   index_query strict_filter known_source = Inr [0, 1] \<and>
   call strict_filter [known_source] None =
     ([(known_source\<lparr>nsites := Some 2\<rparr>, Some (Filtered [0, 1] (members seam_sites)))], None) \<and>
   call strict_filter [unknown_source, known_source] None = ([], Some KeyError)"
  by (simp add: strict_filter_eq call_def known_source_def unknown_source_def box_source_def
      index_query_def get_affected_box_def getitem_def IntegrationDistance_call_def
      getdefault_def yield_def FilteredSiteCollection_def seam_sites_def)




subsection \<open>Transmission and the fallback\<close>

lemma filter_loop_collect:
  assumes "\<not> use_rtree self"
  shows "filter_loop self sites sources = collect (fallback_source (integration_distance self) sites) sources"
  using assms
  by (induction sources)
     (auto simp: fallback_source_def context_def raise_compat_def yield_def
           split: sum.splits option.splits)

text \<open>
  C7, as amended. Pickling and unpickling a filter keeps the site collection and the
  integration-distance table as they are, turns \<open>use_rtree\<close> off and drops the index
  (and the date-line flag that came with it). For every source sequence and sites
  argument, the call on the copy yields what the geometric fallback, as the
  specification words it, yields on the site collection and table of the original.
  Nothing is said of the pairs the index path of the original yields.
\<close>

theorem pickled_copy_runs_fallback:
  "sitecol (setstate (getstate self)) = sitecol self \<and>
   integration_distance (setstate (getstate self)) = integration_distance self \<and>
   use_rtree (setstate (getstate self)) = False \<and>
   index (setstate (getstate self)) = None \<and>
   idl (setstate (getstate self)) = None \<and>
   call (setstate (getstate self)) sources sites =
     geometric_fallback (sitecol self) (integration_distance self) sources sites"
proof -
  have "call (setstate (getstate self)) sources sites =
     geometric_fallback (sitecol self) (integration_distance self) sources sites"
  proof (cases "sitecol self")
    case None
    then show ?thesis
      by (cases sites) (simp_all add: call_def geometric_fallback_def setstate_def getstate_def)
  next
    case (Some c)
    then show ?thesis
      using filter_loop_collect [of "setstate (getstate self)"]
      by (simp add: call_def geometric_fallback_def setstate_def getstate_def)
  qed
  then show ?thesis by (simp add: setstate_def getstate_def)
qed

text \<open>
  C7, as stated, fails in its last clause: the index path of the original and the
  fallback path of the copy need not yield the same pairs. The index keeps the sites
  inside the enlarged bounding box, the fallback keeps what the source's own distance
  filter keeps: a source whose box covers both sites and whose distance filter keeps
  none is yielded by the original and skipped by the copy; a source on the Greenwich
  meridian whose distance filter keeps every site ends the iteration of the original
  and is yielded by the copy.
\<close>

theorem index_and_fallback_differ:
  "call seam_filter [box_source ''w'' (170, -10, 190, 10)] None =
     ([((box_source ''w'' (170, -10, 190, 10))\<lparr>nsites := Some 2\<rparr>,
        Some (Filtered [0, 1] (members seam_sites)))], None) \<and>
   call (setstate (getstate seam_filter)) [box_source ''w'' (170, -10, 190, 10)] None = ([], None) \<and>
   call seam_filter [meridian_source] None = ([], Some TypeError) \<and>
   call (setstate (getstate seam_filter)) [meridian_source] None =
     ([(meridian_source\<lparr>nsites := Some 2\<rparr>, Some seam_sites)], None)"
  by (simp add: seam_call_wide)
     (simp add: seam_filter_eq setstate_def getstate_def call_def box_source_def meridian_source_def
        near_source_def get_affected_box_def getitem_def IntegrationDistance_call_def
        getdefault_def context_def yield_def len_def seam_sites_def)

text \<open>
  C8. In the geometric fallback, an exception raised by a source's distance filter is
  raised again with the kind and the traceback it had and with the message
  "An error occurred with source id=<id>. Error: <message>". It ends the iteration
  at that source: the pairs of the sources before it have been yielded, the source
  itself is neither yielded nor skipped, and nothing follows.
\<close>

theorem fallback_error_enriched:
  assumes "\<not> use_rtree self" and "sitecol self = Some sc"
    and "dic (integration_distance self) \<noteq> []"
    and "fst (IntegrationDistance_call (integration_distance self) (tectonic_region_type src) None)
           = Inr maxdist"
    and "filter_sites_by_distance_to_source src maxdist (case sites of None \<Rightarrow> sc | Some s \<Rightarrow> s)
           = Inl err"
    and "snd (call self pre sites) = None"
  shows "context src (Inl err :: exc + sitecol option) =
           Inl (Raised \<lparr>etype = etype err,
                        emsg = ''An error occurred with source id='' @ source_id src
                               @ ''. Error: '' @ emsg err,
                        tb = tb err\<rparr>) \<and>
         call self (pre @ src # rest) sites =
           (fst (call self pre sites),
            Some (Raised \<lparr>etype = etype err,
                          emsg = ''An error occurred with source id='' @ source_id src
                                 @ ''. Error: '' @ emsg err,
                          tb = tb err\<rparr>))"
proof -
  have c: "context src (Inl err :: exc + sitecol option) =
           Inl (Raised \<lparr>etype = etype err,
                        emsg = ''An error occurred with source id='' @ source_id src
                               @ ''. Error: '' @ emsg err,
                        tb = tb err\<rparr>)"
    by (simp add: context_def raise_compat_def)
  have "call self (src # rest) sites =
           ([], Some (Raised \<lparr>etype = etype err,
                          emsg = ''An error occurred with source id='' @ source_id src
                                 @ ''. Error: '' @ emsg err,
                          tb = tb err\<rparr>))"
    using assms(1-5) c by (simp add: call_def)
  then show ?thesis
    using c assms(2,6) call_append [of self pre sites "src # rest"] by simp
qed


lemma worker_filter_eq:
  "worker_filter =
     \<lparr>integration_distance = \<lparr>dic = [(''default'', Scalar 200)], magdist = [], interp = None\<rparr>,
      sitecol = Some seam_sites, use_rtree = False, idl = None, index = None\<rparr>"
  by (simp add: worker_filter_def setstate_def getstate_def seam_filter_eq)

lemma worker_call_near:
  "call worker_filter [near_source] None = ([(near_source\<lparr>nsites := Some 2\<rparr>, Some seam_sites)], None)"
  by (simp add: worker_filter_eq call_def IntegrationDistance_call_def getdefault_def
      near_source_def context_def yield_def len_def seam_sites_def)

theorem fallback_error_enriched_witness:
  "\<not> use_rtree worker_filter \<and> sitecol worker_filter = Some seam_sites \<and>
   call worker_filter [near_source, failing_source, near_source] None =
     ([(near_source\<lparr>nsites := Some 2\<rparr>, Some seam_sites)],
      Some (Raised \<lparr>etype = ''ValueError'',
                    emsg = ''An error occurred with source id=42. Error: bad geometry'',
                    tb = [''polygon.py:17'']\<rparr>))"
proof -
  let ?err = "\<lparr>etype = ''ValueError'', emsg = ''bad geometry'', tb = [''polygon.py:17'']\<rparr>"
  have f: "\<not> use_rtree worker_filter" "sitecol worker_filter = Some seam_sites"
    "dic (integration_distance worker_filter) \<noteq> []"
    by (simp_all add: worker_filter_eq)
  have g: "fst (IntegrationDistance_call (integration_distance worker_filter)
                  (tectonic_region_type failing_source) None) = Inr (Finite 200)"
    by (simp add: worker_filter_eq IntegrationDistance_call_def getdefault_def failing_source_def)
  have h: "filter_sites_by_distance_to_source failing_source (Finite 200)
             (case None of None \<Rightarrow> seam_sites | Some s \<Rightarrow> s) = Inl ?err"
    by (simp add: failing_source_def)
  have p: "snd (call worker_filter [near_source] None) = None"
    by (simp add: worker_call_near)
  show ?thesis
    using fallback_error_enriched [OF f g h p, of "[near_source]"] f(1,2)
    by (simp add: worker_call_near failing_source_def)
qed

subsection \<open>The table after construction\<close>

lemma map_of_init_dic:
  "map_of (dic (IntegrationDistance_init d)) k = map_option init_value (map_of d k)"
  by (simp add: IntegrationDistance_init_def map_of_map)

lemma getdefault_init_dic:
  "getdefault (dic (IntegrationDistance_init d)) trt =
     (case getdefault d trt of Inl e \<Rightarrow> Inl e | Inr v \<Rightarrow> Inr (init_value v))"
  by (simp add: getdefault_def map_of_init_dic split: option.splits)

lemma getdefault_absent:
  "map_of dc trt = None \<Longrightarrow> getdefault dc trt = getdefault dc ''default''"
  by (simp add: getdefault_def split: option.splits)

lemma map_of_init_magdist_None:
  "map_of d k = None \<Longrightarrow> map_of (init_magdist d) k = None"
  by (induction d rule: init_magdist.induct) (auto split: if_splits)



lemma sorted_le_last:
  "sorted xs \<Longrightarrow> x \<in> set xs \<Longrightarrow> x \<le> last xs"
  by (induction xs) (auto split: if_splits)

lemma last_sort_greatest:
  fixes v :: "(real \<times> real) list"
  assumes "v \<noteq> []"
  shows "last (sort v) \<in> set v \<and> (\<forall>p \<in> set v. fst p \<le> fst (last (sort v)))"
proof -
  have ne: "sort v \<noteq> []" using assms by (metis length_sort length_0_conv)
  then have "last (sort v) \<in> set (sort v)" by (rule last_in_set)
  moreover have "\<forall>p \<in> set v. p \<le> last (sort v)"
    using sorted_le_last [of "sort v"] by simp
  ultimately show ?thesis by (auto simp: less_eq_prod_def)
qed

text \<open>
  C5. A lookup of a region type that is absent from the table resolves to the key
  "default", and fails with a key error when that is absent too. When the resolved value
  is a scalar the lookup returns it for every magnitude argument, given or omitted.
  When it is a non-empty list of (magnitude, distance) pairs and the magnitude is
  omitted, the lookup returns the distance of a pair whose magnitude is the largest
  one stored.
\<close>

theorem lookup_default_scalar_last:
  "(dic self = dic (IntegrationDistance_init d) \<and> map_of d trt = None \<and> map_of d ''default'' = None \<longrightarrow>
      IntegrationDistance_call self trt mg = (Inl KeyError, self)) \<and>
   (dic self = dic (IntegrationDistance_init d) \<and> map_of d trt = None \<longrightarrow>
      getdefault (dic self) trt = getdefault (dic self) ''default'') \<and>
   (map_of d trt = None \<longrightarrow>
      fst (IntegrationDistance_call (IntegrationDistance_init d) trt mg) =
      fst (IntegrationDistance_call (IntegrationDistance_init d) ''default'' mg)) \<and>
   (dic self = dic (IntegrationDistance_init d) \<and> getdefault d trt = Inr (Scalar r) \<longrightarrow>
      IntegrationDistance_call self trt mg = (Inr (Finite r), self)) \<and>
   (dic self = dic (IntegrationDistance_init d) \<and> getdefault d trt = Inr (MagDist v) \<and> v \<noteq> [] \<longrightarrow>
      (\<exists>m dist. IntegrationDistance_call self trt None = (Inr (Finite dist), self) \<and>
                 (m, dist) \<in> set v \<and> (\<forall>p \<in> set v. fst p \<le> m)))"
proof (intro conjI impI)
  assume "dic self = dic (IntegrationDistance_init d) \<and> map_of d trt = None \<and> map_of d ''default'' = None"
  then show "IntegrationDistance_call self trt mg = (Inl KeyError, self)"
    by (simp add: IntegrationDistance_call_def getdefault_init_dic) (simp add: getdefault_def)
next
  assume "dic self = dic (IntegrationDistance_init d) \<and> map_of d trt = None"
  then show "getdefault (dic self) trt = getdefault (dic self) ''default''"
    by (simp add: getdefault_absent map_of_init_dic)
next
  assume a: "map_of d trt = None"
  let ?s = "IntegrationDistance_init d"
  have 1: "getdefault (dic ?s) trt = getdefault (dic ?s) ''default''"
    using a by (simp add: getdefault_absent map_of_init_dic)
  have 2: "getdefault (magdist ?s) trt = getdefault (magdist ?s) ''default''"
    using a by (simp add: getdefault_absent map_of_init_magdist_None IntegrationDistance_init_def)
  have 3: "interp ?s = None" by (simp add: IntegrationDistance_init_def)
  show "fst (IntegrationDistance_call ?s trt mg) = fst (IntegrationDistance_call ?s ''default'' mg)"
    unfolding IntegrationDistance_call_def 1
    using 2 3 by (auto simp: Let_def split: sum.splits dvalue.splits option.splits)
next
  assume "dic self = dic (IntegrationDistance_init d) \<and> getdefault d trt = Inr (Scalar r)"
  then show "IntegrationDistance_call self trt mg = (Inr (Finite r), self)"
    by (simp add: IntegrationDistance_call_def getdefault_init_dic)
next
  assume a: "dic self = dic (IntegrationDistance_init d) \<and> getdefault d trt = Inr (MagDist v) \<and> v \<noteq> []"
  then have ne: "sort v \<noteq> []" by (metis length_sort length_0_conv)
  have "IntegrationDistance_call self trt None = (Inr (Finite (snd (last (sort v)))), self)"
    using a ne by (simp add: IntegrationDistance_call_def getdefault_init_dic)
  moreover have "(fst (last (sort v)), snd (last (sort v))) \<in> set v"
    using last_sort_greatest a by simp
  moreover have "\<forall>p \<in> set v. fst p \<le> fst (last (sort v))"
    using last_sort_greatest a by blast
  ultimately show "\<exists>m dist. IntegrationDistance_call self trt None = (Inr (Finite dist), self) \<and>
                 (m, dist) \<in> set v \<and> (\<forall>p \<in> set v. fst p \<le> m)"
    by blast
qed

subsection \<open>Rounding to double precision\<close>






lemma binade_unique:
  assumes "0 < x" and "2 powr of_int e \<le> x" and "x < 2 powr (of_int e + 1)"
  shows "\<lfloor>log 2 x\<rfloor> = e"
proof -
  have "of_int e \<le> log 2 x" using assms(1,2) by (simp add: le_log_iff)
  moreover have "log 2 x < of_int e + 1" using assms(1,3) by (simp add: log_less_iff)
  ultimately show ?thesis by linarith
qed


lemma rp_eval:
  assumes "0 < x" and "2 powr of_int e \<le> x" and "x < 2 powr (of_int e + 1)"
  shows "rp x = of_int (rhe (x / 2 powr (of_int e - 52))) * 2 powr (of_int e - 52)"
  using assms binade_unique [OF assms] by (simp add: rp_def ulp_def)





lemma rnd_0: "rnd 0 = 0"
  by (simp add: rnd_def rp_def)




lemma rnd_eval:
  assumes "0 < x" and "2 powr of_int e \<le> x" and "x < 2 powr (of_int e + 1)"
  shows "rnd x = of_int (rhe (x / 2 powr (of_int e - 52))) * 2 powr (of_int e - 52)"
  using assms rp_eval [OF assms] by (simp add: rnd_def)

subsection \<open>Linear interpolation within one segment\<close>









subsection \<open>The interpolated lookup\<close>






subsection \<open>Evaluation of the example tables\<close>

lemma rnd_1: "rnd 1 = 1"
  by (subst rnd_eval [of _ 0]) (simp_all add: rhe_def Let_def powr_minus)

lemma rnd_2: "rnd 2 = 2"
  by (subst rnd_eval [of _ 1]) (simp_all add: rhe_def Let_def powr_minus)

lemma rnd_7: "rnd 7 = 7"
  by (subst rnd_eval [of _ 2]) (simp_all add: rhe_def Let_def powr_minus)

lemma rnd_10: "rnd 10 = 10"
  by (subst rnd_eval [of _ 3]) (simp_all add: rhe_def Let_def powr_minus)

lemma rnd_29: "rnd 29 = 29"
  by (subst rnd_eval [of _ 4]) (simp_all add: rhe_def Let_def powr_minus)

lemma rnd_35: "rnd 35 = 35"
  by (subst rnd_eval [of _ 5]) (simp_all add: rhe_def Let_def powr_minus)

lemma rnd_50: "rnd 50 = 50"
  by (subst rnd_eval [of _ 5]) (simp_all add: rhe_def Let_def powr_minus)

lemma rnd_65: "rnd 65 = 65"
  by (subst rnd_eval [of _ 6]) (simp_all add: rhe_def Let_def powr_minus)

lemma rnd_70: "rnd 70 = 70"
  by (subst rnd_eval [of _ 6]) (simp_all add: rhe_def Let_def powr_minus)

lemma rnd_100: "rnd 100 = 100"
  by (subst rnd_eval [of _ 6]) (simp_all add: rhe_def Let_def powr_minus)

lemma rnd_150: "rnd 150 = 150"
  by (subst rnd_eval [of _ 7]) (simp_all add: rhe_def Let_def powr_minus)

lemma rnd_200: "rnd 200 = 200"
  by (subst rnd_eval [of _ 7]) (simp_all add: rhe_def Let_def powr_minus)

lemma rnd_half: "rnd (1/2) = 1/2"
  by (subst rnd_eval [of _ "-1"]) (simp_all add: rhe_def Let_def powr_minus)

text \<open>The quotient 29/7 is rounded down, and seven times the rounded quotient is rounded up.\<close>

lemma rnd_29_7: "rnd (29/7) = 4664442471205157/1125899906842624"
  by (subst rnd_eval [of _ 2]) (simp_all add: rhe_def Let_def powr_minus)

lemma rnd_29_7_7: "rnd (32651097298436099/1125899906842624) = 8162774324609025/281474976710656"
  by (subst rnd_eval [of _ 4]) (simp_all add: rhe_def Let_def powr_minus)

lemma rnd_29_up: "rnd (8162774324609025/281474976710656) = 8162774324609025/281474976710656"
  by (subst rnd_eval [of _ 4]) (simp_all add: rhe_def Let_def powr_minus)

lemmas rnd_values =
  rnd_0 rnd_1 rnd_2 rnd_7 rnd_10 rnd_29 rnd_35 rnd_50 rnd_65 rnd_70 rnd_100 rnd_150 rnd_200
  rnd_half rnd_29_7 rnd_29_7_7 rnd_29_up

lemma init_docstring:
  "IntegrationDistance_init docstring_table =
    \<lparr>dic = [(''default'', MagDist [(1, 10), (2, 20), (3, 30), (4, 40), (5, 100), (6, 200),
                                    (7, 400), (8, 800)])],
     magdist = [(''default'', [[1, 2, 3, 4, 5, 6, 7, 8], [10, 20, 30, 40, 100, 200, 400, 800]])],
     interp = None\<rparr>"
  by (simp add: IntegrationDistance_init_def docstring_table_def zip_star_def)

lemma interp_docstring:
  "interp1d [1, 2, 3, 4, 5, 6, 7, 8] [10, 20, 30, 40, 100, 200, 400, 800] =
     Inr \<lparr>ix = [1, 2, 3, 4, 5, 6, 7, 8], iy = [10, 20, 30, 40, 100, 200, 400, 800]\<rparr>"
  by (simp add: interp1d_def)

lemma linear_docstring:
  "call_linear \<lparr>ix = [1, 2, 3, 4, 5, 6, 7, 8], iy = [10, 20, 30, 40, 100, 200, 400, 800]\<rparr> (11/2)
     = Finite 150"
  "call_linear \<lparr>ix = [1, 2, 3, 4, 5, 6, 7, 8], iy = [10, 20, 30, 40, 100, 200, 400, 800]\<rparr> 6
     = Finite 200"
  by (simp_all add: call_linear_def searchsorted_def clip_def fdiv_def rnd_values)

lemma docstring_lookup:
  "fst (IntegrationDistance_call (IntegrationDistance_init docstring_table) ''Some TRT'' (Some (11/2)))
     = Inr (Finite 150)"
  "fst (IntegrationDistance_call (IntegrationDistance_init docstring_table) ''Some TRT'' (Some 6))
     = Inr (Finite 200)"
  by (simp_all add: init_docstring IntegrationDistance_call_def getdefault_def
        interp1d_star_def interp_docstring linear_docstring)

lemma init_mixed:
  "IntegrationDistance_init mixed_table =
    \<lparr>dic = [(''Volcanic'', Scalar 50), (''default'', MagDist [(1, 10), (3, 30), (5, 100)])],
     magdist = [(''default'', [[1, 3, 5], [10, 30, 100]])],
     interp = None\<rparr>"
  by (simp add: IntegrationDistance_init_def mixed_table_def zip_star_def)

lemma mixed_lookup:
  "fst (IntegrationDistance_call (IntegrationDistance_init mixed_table) ''default'' (Some 4))
     = Inr (Finite 65)"
  by (simp add: init_mixed IntegrationDistance_call_def getdefault_def
        interp1d_star_def interp1d_def call_linear_def searchsorted_def clip_def fdiv_def
        rnd_values)

theorem lookup_default_scalar_last_witness:
  "map_of no_default_table ''Other'' = None \<and> map_of no_default_table ''default'' = None \<and>
   IntegrationDistance_call (IntegrationDistance_init no_default_table) ''Other'' (Some 6) =
     (Inl KeyError, IntegrationDistance_init no_default_table) \<and>
   map_of mixed_table ''Other'' = None \<and>
   fst (IntegrationDistance_call (IntegrationDistance_init mixed_table) ''Other'' (Some 4)) =
     Inr (Finite 65) \<and>
   getdefault mixed_table ''Volcanic'' = Inr (Scalar 50) \<and>
   IntegrationDistance_call (IntegrationDistance_init mixed_table) ''Volcanic'' (Some 4) =
     (Inr (Finite 50), IntegrationDistance_init mixed_table) \<and>
   getdefault mixed_table ''Other'' = Inr (MagDist [(5, 100), (1, 10), (3, 30)]) \<and>
   IntegrationDistance_call (IntegrationDistance_init mixed_table) ''Other'' None =
     (Inr (Finite 100), IntegrationDistance_init mixed_table)"
proof -
  have n: "map_of no_default_table ''Other'' = None \<and> map_of no_default_table ''default'' = None"
    by (simp add: no_default_table_def)
  have m: "map_of mixed_table ''Other'' = None" by (simp add: mixed_table_def)
  have s: "getdefault mixed_table ''Volcanic'' = Inr (Scalar 50)"
    by (simp add: mixed_table_def getdefault_def)
  have l: "getdefault mixed_table ''Other'' = Inr (MagDist [(5, 100), (1, 10), (3, 30)])"
    by (simp add: mixed_table_def getdefault_def)
  have 1: "IntegrationDistance_call (IntegrationDistance_init no_default_table) ''Other'' (Some 6) =
     (Inl KeyError, IntegrationDistance_init no_default_table)"
    using lookup_default_scalar_last
      [of "IntegrationDistance_init no_default_table" no_default_table "''Other''" "Some 6"] n
    by blast
  have 2: "fst (IntegrationDistance_call (IntegrationDistance_init mixed_table) ''Other'' (Some 4)) =
      fst (IntegrationDistance_call (IntegrationDistance_init mixed_table) ''default'' (Some 4))"
    using lookup_default_scalar_last [of _ mixed_table "''Other''" "Some 4"] m by blast
  have 3: "IntegrationDistance_call (IntegrationDistance_init mixed_table) ''Volcanic'' (Some 4) =
     (Inr (Finite 50), IntegrationDistance_init mixed_table)"
    using lookup_default_scalar_last
      [of "IntegrationDistance_init mixed_table" mixed_table "''Volcanic''" "Some 4" 50] s
    by blast
  have 4: "IntegrationDistance_call (IntegrationDistance_init mixed_table) ''Other'' None =
     (Inr (Finite 100), IntegrationDistance_init mixed_table)"
    by (simp add: init_mixed IntegrationDistance_call_def getdefault_def)
  show ?thesis using n m s l 1 2 3 4 by (simp add: mixed_lookup)
qed



subsection \<open>Masks and restricted collections\<close>

lemma select_Cons:
  "select (x # xs) (b # m) = (if b then x # select xs m else select xs m)"
  by (simp add: select_def)

lemma select_Nil: "select [] m = []" "select xs [] = []"
  by (simp_all add: select_def)

lemma select_map_pred: "select xs (map P xs) = filter P xs"
  by (induction xs) (simp_all add: select_Cons select_Nil)

lemma select_zip: "select xs (map P ys) = map fst (filter (\<lambda>p. P (snd p)) (zip xs ys))"
  by (simp add: select_def zip_map2 filter_map comp_def case_prod_beta)

lemma map_select: "map f (select xs m) = select (map f xs) m"
proof (induction xs arbitrary: m)
  case Nil
  then show ?case by (simp add: select_Nil)
next
  case (Cons x xs)
  then show ?case by (cases m) (simp_all add: select_Cons select_Nil)
qed

lemma subseq_select: "subseq (select xs m) xs"
proof (induction xs arbitrary: m)
  case Nil
  then show ?case by (simp add: select_Nil)
next
  case (Cons x xs)
  show ?case
  proof (cases m)
    case Nil
    then show ?thesis by (simp add: select_Nil)
  next
    case (Cons b m')
    then show ?thesis using Cons.IH [of m'] by (simp add: select_Cons list_emb_Cons)
  qed
qed

lemma subseq_set_mono: "subseq xs ys \<Longrightarrow> set xs \<subseteq> set ys"
  by (induction rule: list_emb.induct) auto

lemma sid_fresh:
  assumes "distinct (map sid (y # ys))" and "s \<in> set ys"
  shows "sid s \<noteq> sid y"
proof
  assume "sid s = sid y"
  moreover have "sid s \<in> sid ` set ys" using assms(2) by (rule imageI)
  ultimately have "sid y \<in> set (map sid ys)" by (simp del: list_emb_Nil2)
  then show False using assms(1) by (simp del: list_emb_Nil2)
qed

lemma filter_sid_Cons_same:
  assumes "distinct (map sid (y # ys))"
  shows "filter (\<lambda>s. sid s \<in> sid ` set (y # xs)) (y # ys)
           = y # filter (\<lambda>s. sid s \<in> sid ` set xs) ys"
proof -
  have "filter (\<lambda>s. sid s \<in> sid ` set (y # xs)) ys = filter (\<lambda>s. sid s \<in> sid ` set xs) ys"
  proof (rule filter_cong [OF refl])
    fix s assume "s \<in> set ys"
    then have "sid s \<noteq> sid y" using assms sid_fresh by blast
    then show "(sid s \<in> sid ` set (y # xs)) = (sid s \<in> sid ` set xs)"
      by (simp del: list_emb_Nil2)
  qed
  then show ?thesis by (simp del: list_emb_Nil2)
qed

lemma filter_sid_Cons_other:
  assumes "distinct (map sid (y # ys))" and "set xs \<subseteq> set ys"
  shows "filter (\<lambda>s. sid s \<in> sid ` set xs) (y # ys) = filter (\<lambda>s. sid s \<in> sid ` set xs) ys"
proof -
  have "sid y \<notin> sid ` set xs"
  proof
    assume "sid y \<in> sid ` set xs"
    then obtain s where s: "s \<in> set xs" "sid y = sid s" by (rule imageE)
    then have "s \<in> set ys" using assms(2) by (simp only: subset_iff)
    then have "sid s \<noteq> sid y" using assms(1) by (rule sid_fresh [rotated])
    then show False using s(2) by simp
  qed
  then show ?thesis by (simp del: list_emb_Nil2)
qed

lemma filter_by_sid_subseq:
  "subseq xs ys \<Longrightarrow> distinct (map sid ys) \<Longrightarrow> filter (\<lambda>s. sid s \<in> sid ` set xs) ys = xs"
proof (induction ys arbitrary: xs rule: list.induct)
  case Nil
  from list_emb_Nil2 [OF Nil(1)] show ?case by (simp del: list_emb_Nil2)
next
  case (Cons y ys)
  have d: "distinct (map sid ys)" using Cons.prems(2) by (simp del: list_emb_Nil2)
  show ?case
  proof (cases xs)
    case Nil
    then show ?thesis by (simp del: list_emb_Nil2)
  next
    case xs: (Cons x xs')
    show ?thesis
    proof (cases "x = y")
      case True
      have sub: "subseq xs' ys" using Cons.prems(1) unfolding xs True by (simp del: list_emb_Nil2)
      have "filter (\<lambda>s. sid s \<in> sid ` set (y # xs')) (y # ys) = y # xs'"
        unfolding filter_sid_Cons_same [OF Cons.prems(2)] Cons.IH [OF sub d] ..
      then show ?thesis unfolding xs True .
    next
      case False
      have sub: "subseq xs ys" using Cons.prems(1) False unfolding xs by (simp del: list_emb_Nil2)
      have ss: "set xs \<subseteq> set ys" using sub by (rule subseq_set_mono)
      show ?thesis
        unfolding filter_sid_Cons_other [OF Cons.prems(2) ss]
        using Cons.IH [OF sub d] .
    qed
  qed
qed

lemma subseq_members: "subseq (members sc) (members (complete sc))"
proof (cases sc)
  case (SiteCollection ss)
  then show ?thesis by simp
next
  case (Filtered indices ss)
  have "subseq (filter (\<lambda>s. sid s \<in> set indices) ss) ss" by (rule subseq_filter_left)
  then show ?thesis using Filtered by simp
qed

lemma members_filter_sc_raw:
  "members (filter_sc sc m) =
     filter (\<lambda>s. sid s \<in> set (select (sids sc) m)) (members (complete sc))"
proof (cases sc)
  case (SiteCollection ss)
  then show ?thesis by (simp add: filter_sc_def FilteredSiteCollection_def)
next
  case (Filtered indices ss)
  then show ?thesis by (simp add: filter_sc_def FilteredSiteCollection_def)
qed

lemma members_filter_sc:
  assumes "distinct (map sid (members (complete sc)))" and "sids sc = map sid (members sc)"
  shows "members (filter_sc sc m) = select (members sc) m"
proof -
  have "subseq (select (members sc) m) (members sc)" by (rule subseq_select)
  then have "subseq (select (members sc) m) (members (complete sc))"
    using subseq_members [of sc] by (rule subseq_order.trans)
  then have "filter (\<lambda>s. sid s \<in> sid ` set (select (members sc) m)) (members (complete sc))
               = select (members sc) m"
    using assms(1) by (rule filter_by_sid_subseq)
  moreover have "select (sids sc) m = map sid (select (members sc) m)"
    by (simp only: assms(2) map_select)
  ultimately show ?thesis by (simp only: members_filter_sc_raw set_map)
qed

subsection \<open>The closest sites of a rupture\<close>

lemma get_distances_supported:
  assumes "distance_type \<in> set [''rrup'', ''rx'', ''ry0'', ''rjb'', ''rhypo'', ''repi'', ''rcdpp'', ''azimuth'']"
  shows "\<exists>distances. get_distances rup msh distance_type = Inr distances \<and>
           length distances = length msh"
proof -
  have "distance_type = ''rrup'' \<or> distance_type = ''rx'' \<or> distance_type = ''ry0''
      \<or> distance_type = ''rjb'' \<or> distance_type = ''rhypo'' \<or> distance_type = ''repi''
      \<or> distance_type = ''rcdpp'' \<or> distance_type = ''azimuth''"
    using assms by (simp only: list.set insert_iff empty_iff simp_thms)
  then show ?thesis
    by (elim disjE) (simp_all add: get_distances_def)
qed

lemma getdefault_error: "getdefault dc k = Inl e \<Longrightarrow> e = KeyError"
  by (simp add: getdefault_def split: option.splits)

lemma interp1d_star_error: "interp1d_star args = Inl e \<Longrightarrow> e = TypeError \<or> e = ValueError"
  by (auto simp: interp1d_star_def interp1d_def Let_def split: list.splits if_splits)

lemma call_never_far_away:
  "fst (IntegrationDistance_call self trt mg) \<noteq> Inl FarAwayRupture"
proof
  assume a: "fst (IntegrationDistance_call self trt mg) = Inl FarAwayRupture"
  show False
  proof (cases "getdefault (dic self) trt")
    case (Inl e)
    then show ?thesis using a getdefault_error [OF Inl] by (simp add: IntegrationDistance_call_def)
  next
    case (Inr val)
    show ?thesis
    proof (cases val)
      case (Scalar r)
      then show ?thesis using a Inr by (simp add: IntegrationDistance_call_def)
    next
      case (MagDist v)
      show ?thesis
      proof (cases mg)
        case None
        then show ?thesis using a Inr MagDist
          by (simp add: IntegrationDistance_call_def split: if_splits)
      next
        case (Some m)
        let ?cache = "case interp self of None \<Rightarrow> [] | Some c \<Rightarrow> c"
        show ?thesis
        proof (cases "map_of ?cache trt")
          case (Some md)
          then show ?thesis using a Inr MagDist \<open>mg = Some m\<close>
            by (simp add: IntegrationDistance_call_def Let_def)
        next
          case None
          show ?thesis
          proof (cases "getdefault (magdist self) trt")
            case (Inl e)
            then show ?thesis using a Inr MagDist \<open>mg = Some m\<close> None getdefault_error [OF Inl]
              by (simp add: IntegrationDistance_call_def Let_def)
          next
            case args: (Inr args)
            show ?thesis
            proof (cases "interp1d_star args")
              case (Inl e)
              then show ?thesis using a Inr MagDist \<open>mg = Some m\<close> None args interp1d_star_error [OF Inl]
                by (auto simp: IntegrationDistance_call_def Let_def)
            next
              case md: (Inr md)
              then show ?thesis using a Inr MagDist \<open>mg = Some m\<close> None args
                by (simp add: IntegrationDistance_call_def Let_def)
            qed
          qed
        qed
      qed
    qed
  qed
qed


lemma get_closest_empty:
  assumes "get_distances rup (mesh sites) distance_type = Inr distances" and "dic self = []"
  shows "get_closest self sites rup distance_type = (Inr (sites, distances), self)"
  using assms by (simp add: get_closest_def)

lemma get_closest_lookup_error:
  assumes "get_distances rup (mesh sites) distance_type = Inr distances" and "dic self \<noteq> []"
    and "IntegrationDistance_call self (rup_tectonic_region_type rup) (Some (mag rup)) = (Inl e, self1)"
  shows "get_closest self sites rup distance_type = (Inl e, self1)"
  using assms by (simp add: get_closest_def)

lemma get_closest_threshold:
  assumes "get_distances rup (mesh sites) distance_type = Inr distances" and "dic self \<noteq> []"
    and "IntegrationDistance_call self (rup_tectonic_region_type rup) (Some (mag rup)) = (Inr t, self1)"
  shows "get_closest self sites rup distance_type =
           (if \<exists>x \<in> set distances. fle (Finite x) t
            then Inr (filter_sc sites (map (\<lambda>x. fle (Finite x) t) distances),
                      filter (\<lambda>x. fle (Finite x) t) distances)
            else Inl FarAwayRupture, self1)"
  using assms by (simp add: get_closest_def Let_def list_ex_iff select_map_pred)

text \<open>
  C4, as amended. For every site collection, rupture and supported distance metric, the
  distances are computed, one per site. With an empty table \<open>get_closest\<close> returns all
  sites and all distances. With a non-empty table it looks up the threshold at the
  rupture's region type and magnitude: when the lookup raises, that error is raised;
  when it returns a threshold, \<open>get_closest\<close> returns the sites whose distance is within
  the threshold, which for a well-formed collection are exactly the members paired with
  such a distance, together with those distances, or raises FarAwayRupture when no
  distance is within the threshold. FarAwayRupture is raised exactly when the table is
  not empty, the lookup returns a threshold and no distance is within it.
\<close>

theorem get_closest_cases:
  assumes "distance_type \<in> set [''rrup'', ''rx'', ''ry0'', ''rjb'', ''rhypo'', ''repi'', ''rcdpp'', ''azimuth'']"
  shows "\<exists>distances.
     get_distances rup (mesh sites) distance_type = Inr distances \<and>
     length distances = length (members sites) \<and>
     (dic self = [] \<longrightarrow>
        get_closest self sites rup distance_type = (Inr (sites, distances), self)) \<and>
     (dic self \<noteq> [] \<longrightarrow>
        (\<forall>e self1.
           IntegrationDistance_call self (rup_tectonic_region_type rup) (Some (mag rup)) = (Inl e, self1) \<longrightarrow>
           get_closest self sites rup distance_type = (Inl e, self1)) \<and>
        (\<forall>t self1.
           IntegrationDistance_call self (rup_tectonic_region_type rup) (Some (mag rup)) = (Inr t, self1) \<longrightarrow>
           ((\<exists>x \<in> set distances. fle (Finite x) t) \<longrightarrow>
              get_closest self sites rup distance_type =
                (Inr (filter_sc sites (map (\<lambda>x. fle (Finite x) t) distances),
                      filter (\<lambda>x. fle (Finite x) t) distances), self1)) \<and>
           ((\<forall>x \<in> set distances. \<not> fle (Finite x) t) \<longrightarrow>
              get_closest self sites rup distance_type = (Inl FarAwayRupture, self1)) \<and>
           (distinct (map sid (members (complete sites))) \<and> sids sites = map sid (members sites) \<longrightarrow>
              members (filter_sc sites (map (\<lambda>x. fle (Finite x) t) distances)) =
                map fst (filter (\<lambda>p. fle (Finite (snd p)) t) (zip (members sites) distances))))) \<and>
     (fst (get_closest self sites rup distance_type) = Inl FarAwayRupture \<longleftrightarrow>
        dic self \<noteq> [] \<and>
        (\<exists>t. fst (IntegrationDistance_call self (rup_tectonic_region_type rup) (Some (mag rup))) = Inr t \<and>
             (\<forall>x \<in> set distances. \<not> fle (Finite x) t)))"
proof -
  let ?call = "IntegrationDistance_call self (rup_tectonic_region_type rup) (Some (mag rup))"
  let ?gc = "get_closest self sites rup distance_type"
  obtain distances where d: "get_distances rup (mesh sites) distance_type = Inr distances"
    and l: "length distances = length (mesh sites)"
    using get_distances_supported [OF assms] by blast
  have len: "length distances = length (members sites)" using l by (simp add: mesh_def)
  have empty: "dic self = [] \<longrightarrow> ?gc = (Inr (sites, distances), self)"
    using get_closest_empty [OF d] by blast
  have err: "?call = (Inl e, self1) \<Longrightarrow> dic self \<noteq> [] \<Longrightarrow> ?gc = (Inl e, self1)" for e self1
    using get_closest_lookup_error [OF d] by blast
  have thr: "?call = (Inr t, self1) \<Longrightarrow> dic self \<noteq> [] \<Longrightarrow>
      ?gc = (if \<exists>x \<in> set distances. fle (Finite x) t
             then Inr (filter_sc sites (map (\<lambda>x. fle (Finite x) t) distances),
                       filter (\<lambda>x. fle (Finite x) t) distances)
             else Inl FarAwayRupture, self1)" for t self1
    using get_closest_threshold [OF d] by blast
  have mem: "distinct (map sid (members (complete sites))) \<and> sids sites = map sid (members sites) \<Longrightarrow>
      members (filter_sc sites (map (\<lambda>x. fle (Finite x) t) distances)) =
        map fst (filter (\<lambda>p. fle (Finite (snd p)) t) (zip (members sites) distances))" for t
    using members_filter_sc [of sites "map (\<lambda>x. fle (Finite x) t) distances"]
    by (simp add: select_zip)
  have nonempty: "dic self \<noteq> [] \<longrightarrow>
        (\<forall>e self1. ?call = (Inl e, self1) \<longrightarrow> ?gc = (Inl e, self1)) \<and>
        (\<forall>t self1. ?call = (Inr t, self1) \<longrightarrow>
           ((\<exists>x \<in> set distances. fle (Finite x) t) \<longrightarrow>
              ?gc = (Inr (filter_sc sites (map (\<lambda>x. fle (Finite x) t) distances),
                          filter (\<lambda>x. fle (Finite x) t) distances), self1)) \<and>
           ((\<forall>x \<in> set distances. \<not> fle (Finite x) t) \<longrightarrow> ?gc = (Inl FarAwayRupture, self1)) \<and>
           (distinct (map sid (members (complete sites))) \<and> sids sites = map sid (members sites) \<longrightarrow>
              members (filter_sc sites (map (\<lambda>x. fle (Finite x) t) distances)) =
                map fst (filter (\<lambda>p. fle (Finite (snd p)) t) (zip (members sites) distances))))"
  proof (intro impI conjI allI)
    fix e self1 assume "dic self \<noteq> []" "?call = (Inl e, self1)"
    then show "?gc = (Inl e, self1)" using err by blast
  next
    fix t self1 assume a: "dic self \<noteq> []" "?call = (Inr t, self1)"
      and b: "\<exists>x \<in> set distances. fle (Finite x) t"
    show "?gc = (Inr (filter_sc sites (map (\<lambda>x. fle (Finite x) t) distances),
                      filter (\<lambda>x. fle (Finite x) t) distances), self1)"
      using thr [OF a(2) a(1)] b by simp
  next
    fix t self1 assume a: "dic self \<noteq> []" "?call = (Inr t, self1)"
      and b: "\<forall>x \<in> set distances. \<not> fle (Finite x) t"
    show "?gc = (Inl FarAwayRupture, self1)"
      using thr [OF a(2) a(1)] b by simp
  next
    fix t self1
    assume "distinct (map sid (members (complete sites))) \<and> sids sites = map sid (members sites)"
    then show "members (filter_sc sites (map (\<lambda>x. fle (Finite x) t) distances)) =
                map fst (filter (\<lambda>p. fle (Finite (snd p)) t) (zip (members sites) distances))"
      by (rule mem)
  qed
  have iff: "fst ?gc = Inl FarAwayRupture \<longleftrightarrow>
        dic self \<noteq> [] \<and>
        (\<exists>t. fst ?call = Inr t \<and> (\<forall>x \<in> set distances. \<not> fle (Finite x) t))"
  proof (cases "dic self = []")
    case True
    then show ?thesis using empty by simp
  next
    case False
    obtain r self1 where c: "?call = (r, self1)" by (cases ?call)
    show ?thesis
    proof (cases r)
      case (Inl e)
      then have "?gc = (Inl e, self1)" using err c False by blast
      moreover have "e \<noteq> FarAwayRupture"
        using call_never_far_away [of self "rup_tectonic_region_type rup" "Some (mag rup)"] c Inl
        by auto
      ultimately show ?thesis using c Inl by simp
    next
      case (Inr t)
      then show ?thesis using thr [of t self1] c False by auto
    qed
  qed
  show ?thesis
    using d len empty nonempty iff by (intro exI [of _ distances] conjI)
qed


theorem get_closest_cases_witness:
  "''rrup'' \<in> set [''rrup'', ''rx'', ''ry0'', ''rjb'', ''rhypo'', ''repi'', ''rcdpp'', ''azimuth''] \<and>
   get_distances (example_rupture ''Some TRT'' (11/2)) (mesh seam_sites) ''rrup'' = Inr [10, 500] \<and>
   fst (get_closest (IntegrationDistance_init docstring_table) seam_sites
          (example_rupture ''Some TRT'' (11/2)) ''rrup'')
     = Inr (Filtered [0] (members seam_sites), [10]) \<and>
   members (Filtered [0] (members seam_sites)) = [\<lparr>sid = 0, lon = 359/2, lat = 0, sea_level = True\<rparr>] \<and>
   fst (get_closest (IntegrationDistance_init docstring_table) (Filtered [1] (members seam_sites))
          (example_rupture ''Some TRT'' (11/2)) ''rrup'')
     = Inl FarAwayRupture \<and>
   get_closest (IntegrationDistance_init []) seam_sites (example_rupture ''Some TRT'' (11/2)) ''rrup''
     = (Inr (seam_sites, [10, 500]), IntegrationDistance_init [])"
proof -
  let ?self = "IntegrationDistance_init docstring_table"
  let ?rup = "example_rupture ''Some TRT'' (11/2)"
  let ?far = "Filtered [1] (members seam_sites)"
  let ?call = "IntegrationDistance_call ?self (rup_tectonic_region_type ?rup) (Some (mag ?rup))"
  have m: "''rrup'' \<in> set [''rrup'', ''rx'', ''ry0'', ''rjb'', ''rhypo'', ''repi'', ''rcdpp'', ''azimuth'']"
    by simp
  have trt: "rup_tectonic_region_type ?rup = ''Some TRT''" "mag ?rup = 11/2"
    by (simp_all add: example_rupture_def)
  have gd: "get_distances ?rup (mesh seam_sites) ''rrup'' = Inr [10, 500]"
    by (simp add: get_distances_def mesh_def seam_sites_def example_rupture_def)
  have gf: "get_distances ?rup (mesh ?far) ''rrup'' = Inr [500]"
    by (simp add: get_distances_def mesh_def seam_sites_def example_rupture_def)
  have ne: "dic ?self \<noteq> []" by (simp add: init_docstring)
  have em: "dic (IntegrationDistance_init []) = []" by (simp add: IntegrationDistance_init_def)
  have t: "fst ?call = Inr (Finite 150)" using docstring_lookup(1) by (simp only: trt)
  then obtain self1 where c: "?call = (Inr (Finite 150), self1)" by (cases ?call) simp
  have near: "fst (get_closest ?self seam_sites ?rup ''rrup'') = Inr (Filtered [0] (members seam_sites), [10]) \<and>
      members (Filtered [0] (members seam_sites)) = [\<lparr>sid = 0, lon = 359/2, lat = 0, sea_level = True\<rparr>]"
  proof -
    obtain distances where d: "get_distances ?rup (mesh seam_sites) ''rrup'' = Inr distances"
      and n: "dic ?self \<noteq> [] \<longrightarrow>
        (\<forall>e self1. ?call = (Inl e, self1) \<longrightarrow>
           get_closest ?self seam_sites ?rup ''rrup'' = (Inl e, self1)) \<and>
        (\<forall>t self1. ?call = (Inr t, self1) \<longrightarrow>
           ((\<exists>x \<in> set distances. fle (Finite x) t) \<longrightarrow>
              get_closest ?self seam_sites ?rup ''rrup'' =
                (Inr (filter_sc seam_sites (map (\<lambda>x. fle (Finite x) t) distances),
                      filter (\<lambda>x. fle (Finite x) t) distances), self1)) \<and>
           ((\<forall>x \<in> set distances. \<not> fle (Finite x) t) \<longrightarrow>
              get_closest ?self seam_sites ?rup ''rrup'' = (Inl FarAwayRupture, self1)) \<and>
           (distinct (map sid (members (complete seam_sites))) \<and>
              sids seam_sites = map sid (members seam_sites) \<longrightarrow>
              members (filter_sc seam_sites (map (\<lambda>x. fle (Finite x) t) distances)) =
                map fst (filter (\<lambda>p. fle (Finite (snd p)) t) (zip (members seam_sites) distances))))"
      using get_closest_cases [OF m, of ?rup seam_sites ?self] by (elim exE conjE) (rule that)
    have dv: "distances = [10, 500]" using d gd by simp
    have "\<exists>x \<in> set distances. fle (Finite x) (Finite 150)" by (simp add: dv)
    then have "get_closest ?self seam_sites ?rup ''rrup'' =
        (Inr (filter_sc seam_sites (map (\<lambda>x. fle (Finite x) (Finite 150)) distances),
              filter (\<lambda>x. fle (Finite x) (Finite 150)) distances), self1)"
      using n ne c by blast
    then have r: "fst (get_closest ?self seam_sites ?rup ''rrup'')
        = Inr (Filtered [0] (members seam_sites), [10])"
      by (simp add: dv filter_sc_def FilteredSiteCollection_def select_def seam_sites_def)
    have wf: "distinct (map sid (members (complete seam_sites))) \<and>
        sids seam_sites = map sid (members seam_sites)"
      by (simp add: seam_sites_def)
    have "members (filter_sc seam_sites (map (\<lambda>x. fle (Finite x) (Finite 150)) distances)) =
        map fst (filter (\<lambda>p. fle (Finite (snd p)) (Finite 150)) (zip (members seam_sites) distances))"
      using n ne c wf by blast
    then have "members (filter_sc seam_sites (map (\<lambda>x. fle (Finite x) (Finite 150)) [10, 500]))
        = [\<lparr>sid = 0, lon = 359/2, lat = 0, sea_level = True\<rparr>]"
      by (simp add: dv seam_sites_def)
    moreover have "filter_sc seam_sites (map (\<lambda>x. fle (Finite x) (Finite 150)) [10, 500])
        = Filtered [0] (members seam_sites)"
      by (simp add: filter_sc_def FilteredSiteCollection_def select_def seam_sites_def)
    ultimately have "members (Filtered [0] (members seam_sites))
        = [\<lparr>sid = 0, lon = 359/2, lat = 0, sea_level = True\<rparr>]"
      by (simp only:)
    with r show ?thesis by (rule conjI)
  qed
  have far: "fst (get_closest ?self ?far ?rup ''rrup'') = Inl FarAwayRupture"
  proof -
    obtain distances where d: "get_distances ?rup (mesh ?far) ''rrup'' = Inr distances"
      and i: "fst (get_closest ?self ?far ?rup ''rrup'') = Inl FarAwayRupture \<longleftrightarrow>
        dic ?self \<noteq> [] \<and>
        (\<exists>t. fst ?call = Inr t \<and> (\<forall>x \<in> set distances. \<not> fle (Finite x) t))"
      using get_closest_cases [OF m, of ?rup ?far ?self] by (elim exE conjE) (rule that)
    have dv: "distances = [500]" using d gf by simp
    have "\<forall>x \<in> set distances. \<not> fle (Finite x) (Finite 150)" by (simp add: dv)
    then show ?thesis using i ne t by blast
  qed
  have all: "get_closest (IntegrationDistance_init []) seam_sites ?rup ''rrup''
      = (Inr (seam_sites, [10, 500]), IntegrationDistance_init [])"
  proof -
    obtain distances where d: "get_distances ?rup (mesh seam_sites) ''rrup'' = Inr distances"
      and e: "dic (IntegrationDistance_init []) = [] \<longrightarrow>
        get_closest (IntegrationDistance_init []) seam_sites ?rup ''rrup''
          = (Inr (seam_sites, distances), IntegrationDistance_init [])"
      using get_closest_cases [OF m, of ?rup seam_sites "IntegrationDistance_init []"]
      by (elim exE conjE) (rule that)
    have dv: "distances = [10, 500]" using d gd by simp
    show ?thesis using e em by (simp add: dv)
  qed
  show ?thesis
    using m gd near [THEN conjunct1] near [THEN conjunct2] far all by (intro conjI)
qed

text \<open>
  C4, as stated, fails. With the non-empty table {"Volcanic": 50}, which has no
  "default" entry, and a rupture of region type "Stable", the threshold lookup raises
  KeyError and so does \<open>get_closest\<close>: it neither returns a subset of the sites nor raises
  FarAwayRupture, although the site at distance 10 is within the only threshold of the
  table. With a metric that \<open>get_distances\<close> does not know, \<open>get_closest\<close> raises ValueError
  even when the table is empty.
\<close>

theorem get_closest_lookup_fails:
  "dic (IntegrationDistance_init no_default_table) = [(''Volcanic'', Scalar 50)] \<and>
   get_distances (example_rupture ''Stable'' 6) (mesh seam_sites) ''rrup'' = Inr [10, 500] \<and>
   fst (get_closest (IntegrationDistance_init no_default_table) seam_sites
          (example_rupture ''Stable'' 6) ''rrup'') = Inl KeyError \<and>
   KeyError \<noteq> FarAwayRupture \<and>
   fle (Finite 10) (Finite 50) \<and>
   dic (IntegrationDistance_init []) = [] \<and>
   fst (get_closest (IntegrationDistance_init []) seam_sites
          (example_rupture ''Stable'' 6) ''distance'') = Inl ValueError"
  by (simp add: no_default_table_def IntegrationDistance_init_def get_closest_def
      get_distances_def mesh_def seam_sites_def example_rupture_def
      IntegrationDistance_call_def getdefault_def)

end
